theory Spec2Isabelle
  imports Complex_Main
begin

section \<open>Python values, exceptions and the log\<close>

text \<open>
  The sources are Python. Floats are modelled as reals (rounding is not modelled),
  Python ints as \<open>int\<close>, \<open>None\<close> as \<open>PNone\<close> or as \<open>None\<close> of an
  option type, and every raise as a value of type \<open>exn\<close>.
\<close>

datatype pyval =
    PNone
  | PBool bool
  | PInt int
  | PFloat real
  | PStr string
  | PList "pyval list"
  | PDict "(pyval \<times> pyval) list"

datatype exn =
    Exception string
  | NameError string
  | AttributeError string string
  | KeyError string
  | TypeError string
  | IndexError string
  | LibraryError string

definition quote :: "string \<Rightarrow> string" where
  "quote s = [CHR 0x27] @ s @ [CHR 0x27]"

text \<open>\<open>str(e)\<close> for an exception \<open>e\<close>, as \<open>format\<close> prints it.\<close>

fun str_exn :: "exn \<Rightarrow> string" where
  "str_exn (Exception m) = m"
| "str_exn (NameError n) = ''name '' @ quote n @ '' is not defined''"
| "str_exn (AttributeError c a) = quote c @ '' object has no attribute '' @ quote a"
| "str_exn (KeyError k) = quote k"
| "str_exn (TypeError m) = m"
| "str_exn (IndexError l) = ''list index out of range''"
| "str_exn (LibraryError m) = m"

text \<open>\<open>printlog(msg, msg_type)\<close> appends one entry \<open>(msg_type, msg)\<close> to the log.\<close>

type_synonym log = "(string \<times> string) list"

definition printlog :: "string \<Rightarrow> string \<Rightarrow> log" where
  "printlog msg msg_type = [(msg_type, msg)]"

text \<open>Decimal printing of Python ints, for \<open>format\<close>.\<close>

fun str_nat :: "nat \<Rightarrow> string" where
  "str_nat n =
     (if n < 10 then [''0123456789'' ! n]
      else str_nat (n div 10) @ [''0123456789'' ! (n mod 10)])"

definition str_int :: "int \<Rightarrow> string" where
  "str_int i = (if i < 0 then ''-'' @ str_nat (nat (- i)) else str_nat (nat i))"

text \<open>\<open>int(x)\<close> of a float truncates towards zero.\<close>

definition py_int :: "real \<Rightarrow> int" where
  "py_int x = (if 0 \<le> x then \<lfloor>x\<rfloor> else \<lceil>x\<rceil>)"

subsection \<open>Membership and subscripting of a parsed YAML document\<close>

fun starts_with :: "string \<Rightarrow> string \<Rightarrow> bool" where
  "starts_with s [] = True"
| "starts_with [] (c # cs) = False"
| "starts_with (x # xs) (c # cs) = (x = c \<and> starts_with xs cs)"

fun is_substring :: "string \<Rightarrow> string \<Rightarrow> bool" where
  "is_substring k [] = (k = [])"
| "is_substring k (x # xs) = (starts_with (x # xs) k \<or> is_substring k xs)"

text \<open>\<open>key in data\<close>: keys of a dict, elements of a list, substrings of a string;
  a TypeError for a value that is not iterable.\<close>

fun py_contains :: "pyval \<Rightarrow> string \<Rightarrow> exn + bool" where
  "py_contains (PDict kvs) key = Inr (PStr key \<in> set (map fst kvs))"
| "py_contains (PList xs) key = Inr (PStr key \<in> set xs)"
| "py_contains (PStr s) key = Inr (is_substring key s)"
| "py_contains v key = Inl (TypeError ''argument is not iterable'')"

text \<open>\<open>data[key]\<close> for a string key.\<close>

fun py_getitem :: "pyval \<Rightarrow> string \<Rightarrow> exn + pyval" where
  "py_getitem (PDict kvs) key =
     (case map_of kvs (PStr key) of None \<Rightarrow> Inl (KeyError key) | Some v \<Rightarrow> Inr v)"
| "py_getitem (PList xs) key = Inl (TypeError ''list indices must be integers or slices, not str'')"
| "py_getitem (PStr s) key = Inl (TypeError ''string indices must be integers'')"
| "py_getitem v key = Inl (TypeError ''object is not subscriptable'')"

text \<open>\<open>data[key] = v\<close> for a string key.\<close>

fun py_setitem :: "pyval \<Rightarrow> string \<Rightarrow> pyval \<Rightarrow> exn + pyval" where
  "py_setitem (PDict kvs) key v =
     Inr (PDict (if PStr key \<in> set (map fst kvs)
                 then map (\<lambda>(k, w). if k = PStr key then (k, v) else (k, w)) kvs
                 else kvs @ [(PStr key, v)]))"
| "py_setitem (PList xs) key v = Inl (TypeError ''list indices must be integers or slices, not str'')"
| "py_setitem w key v = Inl (TypeError ''object does not support item assignment'')"

text \<open>\<open>os.path.join(a, b)\<close> on POSIX paths.\<close>

definition os_path_join :: "string \<Rightarrow> string \<Rightarrow> string" where
  "os_path_join a b =
     (if starts_with b ''/'' then b
      else if a = [] then b
      else if last a = CHR ''/'' then a @ b
      else a @ ''/'' @ b)"

section \<open>IntrinsicClass (vision/intrinsic/intrinsic\_utils.py)\<close>

record IntrinsicClass =
  file_name :: string
  file_path :: string
  image_width :: pyval
  image_height :: pyval
  mtx :: pyval
  distortion_model :: pyval
  distortion_coefficients :: pyval
  rectification_matrix :: pyval
  projection_matrix :: pyval
  map1 :: pyval
  map2 :: pyval

text \<open>\<open>IntrinsicClass.__init__\<close>, with the file name and path already resolved
  (from the arguments or the environment).\<close>

definition IntrinsicClass_init :: "string \<Rightarrow> string \<Rightarrow> IntrinsicClass" where
  "IntrinsicClass_init fname fpath =
     \<lparr> file_name = fname, file_path = fpath,
       image_width = PNone, image_height = PNone, mtx = PNone,
       distortion_model = PNone, distortion_coefficients = PNone,
       rectification_matrix = PNone, projection_matrix = PNone,
       map1 = PNone, map2 = PNone \<rparr>"

text \<open>The nine assignments of the \<open>except\<close> branch.\<close>

definition reset_fields :: "IntrinsicClass \<Rightarrow> IntrinsicClass" where
  "reset_fields self =
     self\<lparr> image_width := PNone, image_height := PNone, mtx := PNone,
           distortion_model := PNone, distortion_coefficients := PNone,
           rectification_matrix := PNone, projection_matrix := PNone,
           map1 := PNone, map2 := PNone \<rparr>"

text \<open>All intrinsic fields are absent.\<close>

definition uncalibrated :: "IntrinsicClass \<Rightarrow> bool" where
  "uncalibrated self =
     (image_width self = PNone \<and> image_height self = PNone \<and> mtx self = PNone \<and>
      distortion_model self = PNone \<and> distortion_coefficients self = PNone \<and>
      rectification_matrix self = PNone \<and> projection_matrix self = PNone \<and>
      map1 self = PNone \<and> map2 self = PNone)"

text \<open>
  The environment of \<open>load\<close>:
  \<^item> \<open>FILE_NAME\<close>: the module global of that name. The module binds it only under
    \<open>if __name__ == '__main__'\<close>, so it is \<open>None\<close> (unbound) when the module is
    imported, as \<open>pysubscribers.py\<close> does;
  \<^item> \<open>fs\<close>: the file system. \<open>fs p = None\<close> when \<open>os.path.isfile(p)\<close> is false,
    otherwise what \<open>open\<close> and \<open>yaml.safe_load\<close> give: an exception or the parsed
    document;
  \<^item> \<open>reshape d r c\<close>: numpy's \<open>np.array(d).reshape(r, c)\<close>.
  The name \<open>cv2\<close> is not a parameter: the module never imports it, so evaluating it
  raises NameError.
\<close>

record load_env =
  FILE_NAME :: "string option"
  fs :: "string \<Rightarrow> (exn + pyval) option"
  reshape :: "pyval \<Rightarrow> pyval \<Rightarrow> pyval \<Rightarrow> exn + pyval"

text \<open>The loop over the four matrix keys. It returns the updated document, or the
  exception raised together with what was logged before it.\<close>

fun load_keys :: "load_env \<Rightarrow> string list \<Rightarrow> pyval \<Rightarrow> (exn + pyval) \<times> log" where
  "load_keys env [] data = (Inr data, [])"
| "load_keys env (key # keys) data =
     (case py_contains data key of
        Inl e \<Rightarrow> (Inl e, [])
      | Inr False \<Rightarrow>
          (case FILE_NAME env of
             None \<Rightarrow> (Inl (NameError ''FILE_NAME''), [])
           | Some fname \<Rightarrow>
               (Inl (Exception ''invalid file format''),
                printlog (''Intrinsic file '' @ fname @ '', invalid'') ''ERROR''))
      | Inr True \<Rightarrow>
          (case py_getitem data key of
             Inl e \<Rightarrow> (Inl e, [])
           | Inr blk \<Rightarrow>
               (case py_getitem blk ''data'' of
                  Inl e \<Rightarrow> (Inl e, [])
                | Inr d \<Rightarrow>
                    (case py_getitem blk ''rows'' of
                       Inl e \<Rightarrow> (Inl e, [])
                     | Inr r \<Rightarrow>
                         (case py_getitem blk ''cols'' of
                            Inl e \<Rightarrow> (Inl e, [])
                          | Inr c \<Rightarrow>
                              (case reshape env d r c of
                                 Inl e \<Rightarrow> (Inl e, [])
                               | Inr a \<Rightarrow>
                                   (case py_setitem data key a of
                                      Inl e \<Rightarrow> (Inl e, [])
                                    | Inr data' \<Rightarrow> load_keys env keys data')))))))"

text \<open>One assignment \<open>self.field = data[key]\<close>; a raise leaves the earlier
  assignments in place.\<close>

definition assign ::
  "pyval \<Rightarrow> string \<Rightarrow> (pyval \<Rightarrow> IntrinsicClass \<Rightarrow> IntrinsicClass) \<Rightarrow>
   exn option \<times> IntrinsicClass \<Rightarrow> exn option \<times> IntrinsicClass" where
  "assign data key setter st =
     (case st of
        (Some e, self) \<Rightarrow> (Some e, self)
      | (None, self) \<Rightarrow>
          (case py_getitem data key of
             Inl e \<Rightarrow> (Some e, self)
           | Inr v \<Rightarrow> (None, setter v self)))"

definition assign_fields :: "pyval \<Rightarrow> IntrinsicClass \<Rightarrow> exn option \<times> IntrinsicClass" where
  "assign_fields data self =
     (assign data ''projection_matrix'' (\<lambda>v s. s\<lparr>projection_matrix := v\<rparr>)
     (assign data ''rectification_matrix'' (\<lambda>v s. s\<lparr>rectification_matrix := v\<rparr>)
     (assign data ''distortion_coefficients'' (\<lambda>v s. s\<lparr>distortion_coefficients := v\<rparr>)
     (assign data ''distortion_model'' (\<lambda>v s. s\<lparr>distortion_model := v\<rparr>)
     (assign data ''camera_matrix'' (\<lambda>v s. s\<lparr>mtx := v\<rparr>)
     (assign data ''image_height'' (\<lambda>v s. s\<lparr>image_height := v\<rparr>)
     (assign data ''image_width'' (\<lambda>v s. s\<lparr>image_width := v\<rparr>)
       (None, self))))))))"

text \<open>
  The body of the \<open>try\<close>. Its outcome is \<open>Inr ()\<close> for the early \<open>return\<close> of the
  missing-file branch and \<open>Inl e\<close> for a raise; there is no third outcome, because the
  call \<open>cv2.initUndistortRectifyMap(...)\<close> that follows the assignments raises
  NameError (the callee \<open>cv2\<close> is evaluated before its arguments), so the two map
  assignments and the closing \<open>printlog\<close> are never reached.
\<close>

definition load_try :: "load_env \<Rightarrow> IntrinsicClass \<Rightarrow> (exn + unit) \<times> IntrinsicClass \<times> log" where
  "load_try env self =
     (let abs_path = os_path_join (file_path self) (file_name self) in
      case fs env abs_path of
        None \<Rightarrow>
          (Inr (), self,
           printlog (''No instrinsic configuration file '' @ file_name self) ''ERROR'')
      | Some (Inl e) \<Rightarrow> (Inl e, self, [])
      | Some (Inr data) \<Rightarrow>
          (case load_keys env
                  [''camera_matrix'', ''distortion_coefficients'',
                   ''rectification_matrix'', ''projection_matrix''] data of
             (Inl e, lg) \<Rightarrow> (Inl e, self, lg)
           | (Inr data', lg) \<Rightarrow>
               (case assign_fields data' self of
                  (Some e, self') \<Rightarrow> (Inl e, self', lg)
                | (None, self') \<Rightarrow> (Inl (NameError ''cv2''), self', lg))))"

text \<open>
  \<open>IntrinsicClass.load\<close>. The result is the exception that propagates to the caller
  (\<open>None\<close> when the call returns), the object after the call and the log entries.
  The \<open>except\<close> branch resets the fields and then formats its message from the global
  \<open>FILE_NAME\<close>: when that name is unbound the NameError leaves the handler.
\<close>

definition load :: "load_env \<Rightarrow> IntrinsicClass \<Rightarrow> exn option \<times> IntrinsicClass \<times> log" where
  "load env self =
     (case load_try env self of
        (Inr u, self', lg) \<Rightarrow> (None, self', lg)
      | (Inl e, self', lg) \<Rightarrow>
          (case FILE_NAME env of
             None \<Rightarrow> (Some (NameError ''FILE_NAME''), reset_fields self', lg)
           | Some fname \<Rightarrow>
               (None, reset_fields self',
                lg @ printlog (''Loading instrinsic configuration file '' @ fname @ '', ''
                               @ str_exn e) ''ERROR'')))"

section \<open>Extrinsic store and ExtrinsicSubscriber (python\_utils/pysubscribers.py)\<close>

type_synonym point = "real \<times> real"
type_synonym contour = "point list"

text \<open>The calibration dictionary of one camera, \<open>extrinsic.cams[label]\<close>, with the
  keys the subscribers read.\<close>

record cam_params =
  image_size :: "int \<times> int"
  waypoint_area :: contour
  undistord_cnt :: contour
  view_coord :: "int \<times> int"
  unwarped_size :: "int \<times> int"
  ppmy :: real
  M_inv :: pyval

text \<open>
  The attributes of the \<open>Extrinsic\<close> object that \<open>pysubscribers.py\<close> reads and
  writes. \<open>cams label = None\<close>: no such key; \<open>cams label = Some None\<close>: the key maps
  to \<open>None\<close> (camera not calibrated). The attributes \<open>mtx\<close> and \<open>dist\<close> are named
  \<open>ext_mtx\<close> and \<open>ext_dist\<close> here. \<open>update\<close> is the dirty-flag dictionary.
\<close>

record Extrinsic =
  cams :: "string \<Rightarrow> cam_params option option"
  ext_mtx :: pyval
  ext_dist :: pyval
  update :: "string \<Rightarrow> bool option"

text \<open>
  \<open>Extrinsic.load(mtx, dist, FILE_NAME)\<close> is defined in
  \<open>vision/extrinsic/extrinsic_utils.py\<close>, which is not among the sources; the handler
  takes it as a parameter: from the arguments and the object it gives the exception
  raised (if any), the object after the call and its log entries.
\<close>

type_synonym extrinsic_load =
  "pyval \<Rightarrow> pyval \<Rightarrow> string \<Rightarrow> Extrinsic \<Rightarrow> exn option \<times> Extrinsic \<times> log"

text \<open>
  The attributes \<open>ExtrinsicSubscriber.__init__\<close> assigns, except \<open>self.extrinsic\<close>:
  that object is shared with \<open>WaypointSuscriber\<close>, so the handlers take and return it
  explicitly. The handler also reads \<open>self.update\<close>, an attribute that \<open>__init__\<close>
  never assigns: \<open>sub_update = None\<close> is the object as constructed (reading the
  attribute raises AttributeError), \<open>Some items\<close> an object to which a dictionary
  was attached from outside.
\<close>

record ExtrinsicSubscriber =
  VIDEO_WIDTH :: int
  VIDEO_HEIGHT :: int
  intrinsic :: IntrinsicClass
  sub_update :: "(string \<times> bool) list option"

definition ExtrinsicSubscriber_init :: "int \<Rightarrow> int \<Rightarrow> IntrinsicClass \<Rightarrow> ExtrinsicSubscriber" where
  "ExtrinsicSubscriber_init w h intr =
     \<lparr> VIDEO_WIDTH = w, VIDEO_HEIGHT = h, intrinsic = intr, sub_update = None \<rparr>"

text \<open>
  \<open>for key, val in self.update.items(): val = True\<close>. The body binds the loop's local
  name \<open>val\<close>; it stores nothing in a dictionary. The function gives the final value
  of that local (\<open>None\<close>: never bound).
\<close>

fun rebind_loop :: "(string \<times> bool) list \<Rightarrow> bool option \<Rightarrow> bool option" where
  "rebind_loop [] val = val"
| "rebind_loop ((key, v) # items) val = rebind_loop items (Some True)"

definition extrinsic_file_name :: "ExtrinsicSubscriber \<Rightarrow> string \<Rightarrow> string" where
  "extrinsic_file_name self lbl =
     ''Extrinsic_'' @ str_int (VIDEO_WIDTH self) @ ''_'' @ str_int (VIDEO_HEIGHT self)
       @ ''_'' @ lbl @ ''.yaml''"

text \<open>The body of the \<open>try\<close> of \<open>cb_extrinsic_params\<close>.\<close>

definition cb_extrinsic_try ::
  "extrinsic_load \<Rightarrow> ExtrinsicSubscriber \<Rightarrow> Extrinsic \<Rightarrow> string \<Rightarrow> exn option \<times> Extrinsic \<times> log" where
  "cb_extrinsic_try ext_load self ext lbl =
     (if cams ext lbl \<noteq> None then
        (case ext_load (mtx (intrinsic self)) (distortion_coefficients (intrinsic self))
                (extrinsic_file_name self lbl) ext of
           (Some e, ext', lg) \<Rightarrow> (Some e, ext', lg)
         | (None, ext', lg) \<Rightarrow>
             (case sub_update self of
                None \<Rightarrow> (Some (AttributeError ''ExtrinsicSubscriber'' ''update''), ext', lg)
              | Some items \<Rightarrow>
                  (let val = rebind_loop items None in (None, ext', lg))))
      else (None, ext, []))"

text \<open>
  \<open>ExtrinsicSubscriber.cb_extrinsic_params(msg)\<close> for \<open>msg.cam_label = lbl\<close>: the
  value returned (\<open>Some False\<close> for \<open>return False\<close>, \<open>None\<close> for falling off the
  end), the extrinsic object after the call and the log entries.
\<close>

definition cb_extrinsic_params ::
  "extrinsic_load \<Rightarrow> ExtrinsicSubscriber \<Rightarrow> Extrinsic \<Rightarrow> string \<Rightarrow> bool option \<times> Extrinsic \<times> log" where
  "cb_extrinsic_params ext_load self ext lbl =
     (case cb_extrinsic_try ext_load self ext lbl of
        (Some e, ext', lg) \<Rightarrow>
          (Some False, ext',
           lg @ printlog (''Error getting extrinsic calibrationfrom topic, '' @ str_exn e) ''ERROR'')
      | (None, ext', lg) \<Rightarrow>
          (None, ext',
           lg @ printlog (''Extrinsic parameters for CAM'' @ lbl @ '' updated'') ''INFO''))"

section \<open>WaypointSuscriber (python\_utils/pysubscribers.py)\<close>

text \<open>
  The attributes of \<open>WaypointSuscriber\<close> (leading underscores dropped), except the
  shared \<open>extrinsic\<close> object and the constant tables \<open>_COLORS\<close> and \<open>_DISTAN_M\<close>,
  which are the constants below.
\<close>

record WaypointSuscriber =
  GUI_WAYPOINT_AREA :: int
  cam_label :: string
  x_norm :: "real option"
  y_norm :: "real option"
  x_img :: "int option"
  y_img :: "int option"
  incnt :: bool
  CURV_OFFSET :: real
  BOT_MARGI :: real
  BOT_WIDTH :: real
  HORZL_LEN :: int
  VER_THICK :: int
  HOZ_THICK :: int
  SHOW_PROJ :: int
  y_limit :: "int option"
  AR :: real
  BR :: real
  CR :: real
  AL :: real
  BL :: real
  CL :: real
  proj_m :: "real list option"
  cnt_line :: "(point \<times> point) option"
  curvature :: real
  distord_lines :: bool

definition COLORS :: "(int \<times> int \<times> int) list" where
  "COLORS = [(0, 0, 255), (32, 165, 218), (0, 255, 255), (0, 255, 0)]"

definition DISTAN_M :: "real list" where
  "DISTAN_M = [1, 3 / 2, 3, 5]"

text \<open>The values \<open>__init__\<close> reads from the environment, with their defaults.\<close>

record gui_env =
  env_GUI_WAYPOINT_AREA :: int
  env_CURV_OFFSET :: real
  env_BOT_MARGI :: real
  env_BOT_WIDTH :: real
  env_HORZL_LEN :: int
  env_VER_THICK :: int
  env_HOZ_THICK :: int
  env_SHOW_PROJ :: int

definition default_env :: gui_env where
  "default_env =
     \<lparr> env_GUI_WAYPOINT_AREA = 1, env_CURV_OFFSET = 3 / 1000, env_BOT_MARGI = 8 / 100,
       env_BOT_WIDTH = 1 / 2, env_HORZL_LEN = 10, env_VER_THICK = 2, env_HOZ_THICK = 2,
       env_SHOW_PROJ = 0 \<rparr>"

text \<open>\<open>WaypointSuscriber.__init__\<close>: the new object, and the shared extrinsic object
  with the consumer's flag registered.\<close>

definition WaypointSuscriber_init :: "gui_env \<Rightarrow> Extrinsic \<Rightarrow> WaypointSuscriber \<times> Extrinsic" where
  "WaypointSuscriber_init env ext =
     (\<lparr> GUI_WAYPOINT_AREA = env_GUI_WAYPOINT_AREA env,
        cam_label = ''C'',
        x_norm = None, y_norm = None, x_img = None, y_img = None, incnt = False,
        CURV_OFFSET = env_CURV_OFFSET env, BOT_MARGI = env_BOT_MARGI env,
        BOT_WIDTH = env_BOT_WIDTH env, HORZL_LEN = env_HORZL_LEN env,
        VER_THICK = env_VER_THICK env, HOZ_THICK = env_HOZ_THICK env,
        SHOW_PROJ = env_SHOW_PROJ env,
        y_limit = None,
        AR = 0, BR = 0, CR = 0, AL = 0, BL = 0, CL = 0,
        proj_m = None, cnt_line = None,
        curvature = 0, distord_lines = True \<rparr>,
      ext\<lparr> update := (update ext)(''WaypointSuscriber'' \<mapsto> True) \<rparr>)"

text \<open>
  The functions of \<open>vision.extrinsic.extrinsic_utils\<close> and of OpenCV that the overlay
  calls; they are not among the sources and are taken as parameters.
\<close>

record vision_lib =
  get_projection_point_src :: "real \<times> real \<times> real \<Rightarrow> pyval \<Rightarrow> point"
  get_distor_point :: "point \<Rightarrow> pyval \<Rightarrow> pyval \<Rightarrow> point"
  pointPolygonTest :: "contour \<Rightarrow> point \<Rightarrow> real"

subsection \<open>cb\_screen\_point\<close>

text \<open>
  \<open>WaypointSuscriber.cb_screen_point(msg)\<close> for \<open>msg.x = x\<close>, \<open>msg.y = y\<close>: the
  object after the call and the log entries. The handler returns nothing and catches
  every exception. The value of \<open>ValidPoint\<close> is a local that is never used.
\<close>

definition cb_screen_point ::
  "vision_lib \<Rightarrow> WaypointSuscriber \<Rightarrow> Extrinsic \<Rightarrow> real \<Rightarrow> real \<Rightarrow> WaypointSuscriber \<times> log" where
  "cb_screen_point lib self ext x y =
     (let self1 = self\<lparr> x_norm := Some x, y_norm := Some y \<rparr> in
      case cams ext (cam_label self1) of
        None \<Rightarrow>
          (self1,
           printlog (''error procesing waypoint '' @ str_exn (KeyError (cam_label self1))) ''ERROR'')
      | Some None \<Rightarrow>
          (self1,
           printlog (''error procesing waypoint ''
                     @ str_exn (Exception (''camera '' @ cam_label self1 @ '' no calibrated'')))
                    ''ERROR'')
      | Some (Some c) \<Rightarrow>
          (let self2 = self1\<lparr> x_img := Some (py_int (x * real_of_int (fst (image_size c)))) \<rparr>;
               self3 = self2\<lparr> y_img := Some (py_int (y * real_of_int (snd (image_size c)))) \<rparr>;
               ValidPoint = pointPolygonTest lib (waypoint_area c)
                              (real_of_int (the (x_img self3)), real_of_int (the (y_img self3)))
           in (self3, [])))"

subsection \<open>draw: curve coefficients\<close>

text \<open>
  The block of \<open>draw\<close> that recomputes the curve coefficients for the calibration
  \<open>c\<close> of the camera (\<open>np.ceil\<close> and \<open>int\<close> of a float as ceiling).
\<close>

definition ct_dist :: "WaypointSuscriber \<Rightarrow> cam_params \<Rightarrow> int" where
  "ct_dist self c = \<lceil>(BOT_WIDTH self * (1 / 2) + BOT_MARGI self) * ppmy c\<rceil>"

definition draw_coeffs :: "WaypointSuscriber \<Rightarrow> cam_params \<Rightarrow> WaypointSuscriber" where
  "draw_coeffs self c =
     self\<lparr> AR := (if curvature self > 0
                  then (1 / 100 + CURV_OFFSET self) * curvature self
                  else (1 / 100 - CURV_OFFSET self) * curvature self),
           AL := (1 / 100) * curvature self,
           CR := real_of_int (fst (view_coord c) + ct_dist self c),
           CL := real_of_int (fst (view_coord c) - ct_dist self c),
           BL := 0 \<rparr>"

subsection \<open>draw: sampling the left and right curves\<close>

datatype side = Left | Right

text \<open>The projected point of one side for the sample \<open>idx_y\<close>, and its signed
  distance to the polygon (\<open>in_cnt\<close>). The source writes the two sides out one after
  the other; they differ in the coefficients only.\<close>

definition curve_x :: "WaypointSuscriber \<Rightarrow> side \<Rightarrow> int \<Rightarrow> real" where
  "curve_x self sd idx_y =
     (case sd of
        Left \<Rightarrow> AL self * (real_of_int idx_y)\<^sup>2 + BL self * real_of_int idx_y + CL self
      | Right \<Rightarrow> AR self * (real_of_int idx_y)\<^sup>2 + BR self * real_of_int idx_y + CR self)"

definition side_point ::
  "vision_lib \<Rightarrow> WaypointSuscriber \<Rightarrow> Extrinsic \<Rightarrow> cam_params \<Rightarrow> side \<Rightarrow> int \<Rightarrow> point" where
  "side_point lib self ext c sd idx_y =
     (let p = get_projection_point_src lib
                (curve_x self sd idx_y, real_of_int (snd (view_coord c) + idx_y), 1) (M_inv c)
      in if distord_lines self then get_distor_point lib p (ext_mtx ext) (ext_dist ext) else p)"

definition in_cnt :: "vision_lib \<Rightarrow> WaypointSuscriber \<Rightarrow> cam_params \<Rightarrow> point \<Rightarrow> real" where
  "in_cnt lib self c p =
     (if distord_lines self then pointPolygonTest lib (waypoint_area c) p
      else pointPolygonTest lib (undistord_cnt c) p)"

text \<open>One side's part of the loop body, on the pair of its out-flag (\<open>lout\<close>,
  \<open>rout\<close>) and its list of retained points.\<close>

definition side_step ::
  "vision_lib \<Rightarrow> WaypointSuscriber \<Rightarrow> Extrinsic \<Rightarrow> cam_params \<Rightarrow> side \<Rightarrow> int \<Rightarrow>
   bool \<times> point list \<Rightarrow> bool \<times> point list" where
  "side_step lib self ext c sd idx_y st =
     (if \<not> fst st then
        (let p = side_point lib self ext c sd idx_y in
         if in_cnt lib self c p \<ge> 0 then (fst st, snd st @ [p]) else (True, snd st))
      else st)"

text \<open>
  The \<open>while idx_y > lo\<close> loop, with \<open>lo = - view_coord[1] + y_limit\<close>. The
  increment starts at 1 and only grows, so it is a natural number.
\<close>

function sample_loop ::
  "vision_lib \<Rightarrow> WaypointSuscriber \<Rightarrow> Extrinsic \<Rightarrow> cam_params \<Rightarrow> int \<Rightarrow> int \<Rightarrow> nat \<Rightarrow>
   bool \<times> point list \<Rightarrow> bool \<times> point list \<Rightarrow> point list \<times> point list" where
  "sample_loop lib self ext c lo idx_y increment l r =
     (if idx_y > lo then
        sample_loop lib self ext c lo (idx_y - int increment) (increment + 1)
          (side_step lib self ext c Left idx_y l) (side_step lib self ext c Right idx_y r)
      else (snd l, snd r))"
  by pat_completeness auto
termination
  by (relation "measure (\<lambda>(lib, self, ext, c, lo, idx_y, increment, l, r).
                  2 * nat (idx_y - lo) + (if increment = 0 then 1 else 0))") auto

text \<open>The sample indices the loop visits, in order.\<close>

function sample_idx :: "int \<Rightarrow> int \<Rightarrow> nat \<Rightarrow> int list" where
  "sample_idx lo idx_y increment =
     (if idx_y > lo then idx_y # sample_idx lo (idx_y - int increment) (increment + 1)
      else [])"
  by pat_completeness auto
termination
  by (relation "measure (\<lambda>(lo, idx_y, increment).
                  2 * nat (idx_y - lo) + (if increment = 0 then 1 else 0))") auto

text \<open>The sampling block of \<open>draw\<close>: \<open>(left_proj, right_proj)\<close>, or the TypeError of
  comparing with \<open>y_limit = None\<close>.\<close>

definition draw_sample ::
  "vision_lib \<Rightarrow> WaypointSuscriber \<Rightarrow> Extrinsic \<Rightarrow> cam_params \<Rightarrow> exn + point list \<times> point list" where
  "draw_sample lib self ext c =
     (case y_limit self of
        None \<Rightarrow> Inl (TypeError ''unsupported operand type(s) for +: int and NoneType'')
      | Some yl \<Rightarrow>
          Inr (sample_loop lib self ext c (- snd (view_coord c) + yl)
                 (- (snd (view_coord c) - snd (unwarped_size c))) 1 (False, []) (False, [])))"

subsection \<open>draw: rendering the retained segments\<close>

text \<open>A call of \<open>cv2.line(img, pt1, pt2, color, thickness)\<close>; the kind records which
  of the loop's two calls drew it (the horizontal tick or the segment).\<close>

datatype line_kind = Tick | Segment

datatype draw_cmd = Line line_kind point point "int \<times> int \<times> int" int

fun kind_of :: "draw_cmd \<Rightarrow> line_kind" where
  "kind_of (Line k p q col th) = k"

fun thickness_of :: "draw_cmd \<Rightarrow> int" where
  "thickness_of (Line k p q col th) = th"

text \<open>The loop's variables and the lines drawn so far.\<close>

record pen =
  color_idx :: nat
  thickness_idx :: int
  drawn :: "draw_cmd list"

text \<open>\<open>xs[i]\<close> for \<open>i \<ge> 0\<close>; the name of the list tells the IndexErrors apart.\<close>

definition py_nth :: "string \<Rightarrow> 'a list \<Rightarrow> nat \<Rightarrow> exn + 'a" where
  "py_nth name xs i = (if i < length xs then Inr (xs ! i) else Inl (IndexError name))"

definition proj_m_at :: "WaypointSuscriber \<Rightarrow> nat \<Rightarrow> exn + real" where
  "proj_m_at self idx =
     (case proj_m self of
        None \<Rightarrow> Inl (TypeError ''NoneType object is not subscriptable'')
      | Some pm \<Rightarrow> py_nth ''_proj_m'' pm idx)"

definition tick_end :: "WaypointSuscriber \<Rightarrow> side \<Rightarrow> point \<Rightarrow> point" where
  "tick_end self sd p =
     (case sd of
        Left \<Rightarrow> (fst p + real_of_int (HORZL_LEN self), snd p)
      | Right \<Rightarrow> (fst p - real_of_int (HORZL_LEN self), snd p))"

text \<open>
  The inner \<open>while self._proj_m[idx] > self._DISTAN_M[color_idx]\<close> loop for one
  index, whose distance is \<open>pm\<close> and whose point is \<open>p\<close>. The statement
  \<open>thickness_idx -= 1 if thickness_idx > 0 else thickness_idx\<close> subtracts the value of
  the conditional expression.
\<close>

function color_while ::
  "WaypointSuscriber \<Rightarrow> side \<Rightarrow> real \<Rightarrow> point \<Rightarrow> pen \<Rightarrow> exn option \<times> pen" where
  "color_while self sd pm p st =
     (case py_nth ''_DISTAN_M'' DISTAN_M (color_idx st) of
        Inl e \<Rightarrow> (Some e, st)
      | Inr d \<Rightarrow>
          (if pm > d then
             (let st1 = st\<lparr> color_idx := color_idx st + 1 \<rparr>;
                  st2 = st1\<lparr> thickness_idx :=
                              thickness_idx st1 -
                                (if thickness_idx st1 > 0 then 1 else thickness_idx st1) \<rparr>
              in case py_nth ''_COLORS'' COLORS (color_idx st2) of
                   Inl e \<Rightarrow> (Some e, st2)
                 | Inr col \<Rightarrow>
                     color_while self sd pm p
                       (st2\<lparr> drawn := drawn st2 @
                              [Line Tick p (tick_end self sd p) col
                                 (HOZ_THICK self + thickness_idx st2)] \<rparr>))
           else (None, st)))"
  by pat_completeness auto
termination
  by (relation "measure (\<lambda>(self, sd, pm, p, st). length DISTAN_M - color_idx st)")
     (auto simp: py_nth_def split: if_splits)

text \<open>
  The \<open>for idx in range(len(proj) - 1)\<close> loop over the remaining indices. An
  exception leaves the loop with the lines already drawn.
\<close>

fun draw_loop ::
  "WaypointSuscriber \<Rightarrow> side \<Rightarrow> point list \<Rightarrow> nat list \<Rightarrow> pen \<Rightarrow> exn option \<times> pen" where
  "draw_loop self sd pts [] st = (None, st)"
| "draw_loop self sd pts (idx # rest) st =
     (case proj_m_at self idx of
        Inl e \<Rightarrow> (Some e, st)
      | Inr pm \<Rightarrow>
          (if pm > last DISTAN_M then (None, st)
           else
             (case color_while self sd pm (pts ! idx) st of
                (Some e, st1) \<Rightarrow> (Some e, st1)
              | (None, st1) \<Rightarrow>
                  (case py_nth ''_COLORS'' COLORS (color_idx st1) of
                     Inl e \<Rightarrow> (Some e, st1)
                   | Inr col \<Rightarrow>
                       draw_loop self sd pts rest
                         (st1\<lparr> drawn := drawn st1 @
                                 [Line Segment (pts ! idx) (pts ! (idx + 1)) col
                                    (VER_THICK self + thickness_idx st1)] \<rparr>)))))"

text \<open>The rendering of one side: the loop from \<open>color_idx = 0\<close> and
  \<open>thickness_idx = len(self._COLORS)\<close>.\<close>

definition draw_side :: "WaypointSuscriber \<Rightarrow> side \<Rightarrow> point list \<Rightarrow> exn option \<times> pen" where
  "draw_side self sd pts =
     draw_loop self sd pts [0 ..< length pts - 1]
       \<lparr> color_idx = 0, thickness_idx = int (length COLORS), drawn = [] \<rparr>"

subsection \<open>Distance bands\<close>

text \<open>The distance table as the loop reads it: empty when \<open>_proj_m\<close> is \<open>None\<close>.\<close>

definition distances :: "WaypointSuscriber \<Rightarrow> real list" where
  "distances self = (case proj_m self of None \<Rightarrow> [] | Some pm \<Rightarrow> pm)"

text \<open>The number of thresholds of \<open>_DISTAN_M\<close> that lie strictly below a distance.\<close>

definition crossed :: "real \<Rightarrow> nat" where
  "crossed d = length (filter (\<lambda>t. t < d) DISTAN_M)"

text \<open>The largest of the first \<open>n\<close> distances (0 when there is none).\<close>

definition reach :: "real list \<Rightarrow> nat \<Rightarrow> real" where
  "reach pm n = foldl max 0 (take n pm)"

text \<open>The segments among the lines drawn.\<close>

definition segments :: "draw_cmd list \<Rightarrow> draw_cmd list" where
  "segments cmds = filter (\<lambda>cmd. kind_of cmd = Segment) cmds"

text \<open>The number of leading indices of the loop whose distance does not exceed 5.\<close>

definition n_drawn :: "point list \<Rightarrow> real list \<Rightarrow> nat" where
  "n_drawn pts pm = length (takeWhile (\<lambda>d. d \<le> 5) (take (length pts - 1) pm))"

text \<open>The segment from point \<open>j\<close> to point \<open>j + 1\<close>, styled by the number of
  thresholds that the distances up to index \<open>j\<close> have crossed.\<close>

definition seg_line :: "WaypointSuscriber \<Rightarrow> point list \<Rightarrow> nat \<Rightarrow> draw_cmd" where
  "seg_line self pts j =
     Line Segment (pts ! j) (pts ! (j + 1))
       (COLORS ! crossed (reach (distances self) (Suc j)))
       (VER_THICK self + (4 - int (crossed (reach (distances self) (Suc j)))))"

text \<open>Ticks only, each at least as thick as the base horizontal thickness.\<close>

definition ticks_ok :: "WaypointSuscriber \<Rightarrow> draw_cmd list \<Rightarrow> bool" where
  "ticks_ok self cmds = list_all (\<lambda>t. kind_of t = Tick \<and> HOZ_THICK self \<le> thickness_of t) cmds"

text \<open>The outcomes of a rendering loop: it ends normally, or on reading \<open>_proj_m\<close>.\<close>

definition proj_m_errors :: "exn option set" where
  "proj_m_errors =
     {None, Some (IndexError ''_proj_m''),
      Some (TypeError ''NoneType object is not subscriptable'')}"

text \<open>The base thickness of a line, and the invariant of the thickness index.\<close>

definition min_thick :: "WaypointSuscriber \<Rightarrow> draw_cmd \<Rightarrow> int" where
  "min_thick self cmd = (case kind_of cmd of Tick \<Rightarrow> HOZ_THICK self | Segment \<Rightarrow> VER_THICK self)"

definition thick_ok :: "WaypointSuscriber \<Rightarrow> pen \<Rightarrow> bool" where
  "thick_ok self st =
     (0 \<le> thickness_idx st \<and> list_all (\<lambda>cmd. min_thick self cmd \<le> thickness_of cmd) (drawn st))"

section \<open>Example objects\<close>

text \<open>A calibrated camera with a 640 x 360 image, viewed from (320, 400), at 10
  pixels per metre.\<close>

definition example_cam :: cam_params where
  "example_cam =
     \<lparr> image_size = (640, 360),
       waypoint_area = [(0, 0), (640, 0), (640, 360), (0, 360)],
       undistord_cnt = [(0, 0), (640, 0), (640, 360), (0, 360)],
       view_coord = (320, 400), unwarped_size = (640, 360), ppmy = 10, M_inv = PNone \<rparr>"

text \<open>An extrinsic store that knows camera \<open>C\<close>, not calibrated yet, and holds the
  waypoint consumer's flag, cleared (as line 306 of \<open>draw\<close> leaves it).\<close>

definition example_ext :: Extrinsic where
  "example_ext =
     \<lparr> cams = [''C'' \<mapsto> None], ext_mtx = PNone, ext_dist = PNone,
       update = [''WaypointSuscriber'' \<mapsto> False] \<rparr>"

text \<open>A load that succeeds: it installs the calibration of camera \<open>C\<close> and the
  intrinsic parameters, and does not touch the flags.\<close>

definition example_load :: extrinsic_load where
  "example_load m d fname ext =
     (None, ext\<lparr> cams := (cams ext)(''C'' \<mapsto> Some example_cam), ext_mtx := m, ext_dist := d \<rparr>, [])"

definition example_intrinsic :: IntrinsicClass where
  "example_intrinsic = IntrinsicClass_init ''Intrinsic_640_360.yaml'' ''/configs''"

definition example_subscriber :: ExtrinsicSubscriber where
  "example_subscriber = ExtrinsicSubscriber_init 640 360 example_intrinsic"

text \<open>A process that imported the module (\<open>FILE_NAME\<close> unbound), with a file at the
  expected path that parses to an empty mapping.\<close>

definition example_load_env :: load_env where
  "example_load_env =
     \<lparr> FILE_NAME = None,
       fs = (\<lambda>p. if p = ''/configs/Intrinsic_640_360.yaml'' then Some (Inr (PDict [])) else None),
       reshape = (\<lambda>d r c. Inr d) \<rparr>"

definition matrix_block :: "int \<Rightarrow> int \<Rightarrow> real list \<Rightarrow> pyval" where
  "matrix_block r c xs =
     PDict [(PStr ''rows'', PInt r), (PStr ''cols'', PInt c), (PStr ''data'', PList (map PFloat xs))]"

text \<open>A well-formed calibration document.\<close>

definition example_calibration :: pyval where
  "example_calibration =
     PDict [(PStr ''image_width'', PInt 640), (PStr ''image_height'', PInt 360),
            (PStr ''camera_matrix'', matrix_block 3 3 [1, 0, 0, 0, 1, 0, 0, 0, 1]),
            (PStr ''distortion_model'', PStr ''plumb_bob''),
            (PStr ''distortion_coefficients'', matrix_block 1 5 [0, 0, 0, 0, 0]),
            (PStr ''rectification_matrix'', matrix_block 3 3 [1, 0, 0, 0, 1, 0, 0, 0, 1]),
            (PStr ''projection_matrix'', matrix_block 3 4 [1, 0, 0, 0, 0, 1, 0, 0, 0, 0, 1, 0])]"

text \<open>A projection that keeps the plane coordinates, no lens distortion, and the
  signed distance to the border of the 640 x 360 rectangle.\<close>

definition example_lib :: vision_lib where
  "example_lib =
     \<lparr> get_projection_point_src = (\<lambda>(x, y, w) m. (x, y)),
       get_distor_point = (\<lambda>p m d. p),
       pointPolygonTest = (\<lambda>cnt (x, y). min (min x (640 - x)) (min y (360 - y))) \<rparr>"

definition example_overlay :: WaypointSuscriber where
  "example_overlay = fst (WaypointSuscriber_init default_env example_ext)"

text \<open>The overlay in a sharp turn (curvature -18), with the far limit and the distance
  table of \<open>example_cam\<close>.\<close>

definition example_curve :: WaypointSuscriber where
  "example_curve =
     draw_coeffs (example_overlay\<lparr> curvature := - 18, y_limit := Some 350,
                                  proj_m := Some [4, 41 / 10, 43 / 10, 23 / 5] \<rparr>) example_cam"

text \<open>An overlay whose distance table passes every threshold, and seven points of a
  straight left edge.\<close>

definition example_far :: WaypointSuscriber where
  "example_far = example_overlay\<lparr> proj_m := Some [1 / 2, 6 / 5, 2, 4, 6, 7] \<rparr>"

definition example_pts :: "point list" where
  "example_pts =
     [(100, 350), (100, 340), (100, 320), (100, 290), (100, 250), (100, 200), (100, 140)]"

section \<open>Properties of IntrinsicClass.load\<close>

declare color_while.simps [simp del]
declare sample_loop.simps [simp del]
declare sample_idx.simps [simp del]

lemma uncalibrated_init: "uncalibrated (IntrinsicClass_init fname fpath)"
  by (simp add: uncalibrated_def IntrinsicClass_init_def)

lemma uncalibrated_reset: "uncalibrated (reset_fields self)"
  by (simp add: uncalibrated_def reset_fields_def)

text \<open>Whenever the file exists the \<open>try\<close> ends in a raise: a failed read or parse, a
  missing key, a failed reshape, or at the latest the unbound name \<open>cv2\<close>.\<close>

lemma load_try_raises:
  "fs env (os_path_join (file_path self) (file_name self)) \<noteq> None \<Longrightarrow>
   \<exists>e self' lg. load_try env self = (Inl e, self', lg)"
  by (auto simp: load_try_def Let_def split: option.splits sum.splits prod.splits)

text \<open>With \<open>FILE_NAME\<close> unbound, every load of an existing file lets a NameError
  out of the handler; the fields have been reset by then.\<close>

lemma load_existing_file_unbound_FILE_NAME:
  assumes "FILE_NAME env = None"
    and "fs env (os_path_join (file_path self) (file_name self)) \<noteq> None"
  shows "fst (load env self) = Some (NameError ''FILE_NAME'')"
    and "uncalibrated (fst (snd (load env self)))"
  using load_try_raises [OF assms(2)] assms(1)
  by (auto simp: load_def uncalibrated_reset)

text \<open>With \<open>FILE_NAME\<close> bound (the module run as a script) no exception propagates.\<close>

lemma load_bound_FILE_NAME_returns:
  "FILE_NAME env = Some fname \<Longrightarrow> fst (load env self) = None"
  by (auto simp: load_def split: prod.splits sum.splits)

text \<open>A missing file is reported and leaves the object as it was: this branch returns
  before the handler and resets nothing.\<close>

lemma load_missing_file:
  "fs env (os_path_join (file_path self) (file_name self)) = None \<Longrightarrow>
   load env self =
     (None, self, [(''ERROR'', ''No instrinsic configuration file '' @ file_name self)])"
  by (simp add: load_def load_try_def printlog_def)

text \<open>An object whose fields are all absent keeps them absent through any load: no
  load populates the fields.\<close>

lemma load_keeps_uncalibrated:
  assumes "uncalibrated self"
  shows "uncalibrated (fst (snd (load env self)))"
proof (cases "fs env (os_path_join (file_path self) (file_name self))")
  case None
  then show ?thesis using assms by (simp add: load_missing_file)
next
  case (Some a)
  then obtain e self' lg where "load_try env self = (Inl e, self', lg)"
    using load_try_raises [of env self] by auto
  then show ?thesis
    by (auto simp: load_def uncalibrated_reset split: option.splits)
qed

lemma load_well_formed_file_raises:
  "load (example_load_env\<lparr> fs := (\<lambda>p. Some (Inr example_calibration)) \<rparr>) example_intrinsic =
     (Some (NameError ''FILE_NAME''), example_intrinsic, [])"
  by (simp add: load_def load_try_def example_load_env_def example_intrinsic_def
      IntrinsicClass_init_def os_path_join_def reset_fields_def
      example_calibration_def matrix_block_def assign_fields_def assign_def)

text \<open>
  Claim C3: no exception propagates out of \<open>IntrinsicClass.load\<close>, and after a failed
  load every intrinsic field is absent. The code does not keep the first part: for the
  example object, in a process that imported the module, with a file at the expected
  path that parses to an empty mapping, the key check fails, the \<open>printlog\<close> argument
  names the unbound global \<open>FILE_NAME\<close>, the handler resets the fields and names
  \<open>FILE_NAME\<close> again, and that NameError propagates to the caller.
\<close>

theorem load_raises_NameError:
  "fs example_load_env (os_path_join (file_path example_intrinsic) (file_name example_intrinsic))
     = Some (Inr (PDict [])) \<and>
   load example_load_env example_intrinsic =
     (Some (NameError ''FILE_NAME''), example_intrinsic, [])"
  by (simp add: load_def load_try_def example_load_env_def example_intrinsic_def
      IntrinsicClass_init_def os_path_join_def reset_fields_def)

section \<open>Properties of ExtrinsicSubscriber.cb\_extrinsic\_params\<close>

text \<open>After the handler the extrinsic object is exactly what \<open>load\<close> left: the
  handler itself writes no flag.\<close>

lemma cb_extrinsic_params_state_from_load:
  assumes "cams ext lbl \<noteq> None"
    and "ext_load (mtx (intrinsic self)) (distortion_coefficients (intrinsic self))
           (extrinsic_file_name self lbl) ext = (r, ext', lg)"
  shows "fst (snd (cb_extrinsic_params ext_load self ext lbl)) = ext'"
  using assms
  by (auto simp: cb_extrinsic_params_def cb_extrinsic_try_def split: option.splits)

text \<open>The same with a dictionary attached to the subscriber as \<open>self.update\<close>: the
  loop runs and changes nothing.\<close>

lemma cb_extrinsic_params_attached_dict:
  "update (fst (snd (cb_extrinsic_params example_load
       (example_subscriber\<lparr> sub_update := Some [(''WaypointSuscriber'', False)] \<rparr>) example_ext ''C'')))
     ''WaypointSuscriber'' = Some False"
  by (simp add: cb_extrinsic_params_def cb_extrinsic_try_def example_ext_def example_load_def
      example_subscriber_def ExtrinsicSubscriber_init_def)

text \<open>
  Claim C1: after a successful extrinsic reload triggered by a calibration-update
  event, every entry of the \<open>update\<close> mapping is true. The code does not do this: for
  camera \<open>C\<close>, known to the store, with the waypoint consumer's flag cleared and a load
  that succeeds, the flag is still false after the handler, which returns \<open>False\<close>
  (reading \<open>self.update\<close> raised AttributeError).
\<close>

theorem cb_extrinsic_params_flag_stays_false:
  "cams example_ext ''C'' \<noteq> None \<and>
   fst (example_load (mtx (intrinsic example_subscriber))
          (distortion_coefficients (intrinsic example_subscriber))
          (extrinsic_file_name example_subscriber ''C'') example_ext) = None \<and>
   update example_ext ''WaypointSuscriber'' = Some False \<and>
   update (fst (snd (cb_extrinsic_params example_load example_subscriber example_ext ''C'')))
     ''WaypointSuscriber'' = Some False \<and>
   fst (cb_extrinsic_params example_load example_subscriber example_ext ''C'') = Some False"
  by (simp add: cb_extrinsic_params_def cb_extrinsic_try_def example_ext_def example_load_def
      example_subscriber_def ExtrinsicSubscriber_init_def)

text \<open>
  Claim C4, as stated: an event for a label that is not a key of the store is ignored
  and a warning is logged. It is false at label \<open>L\<close> for the example store: the only
  log entry is the informational one that follows the \<open>try\<close>.
\<close>

theorem cb_extrinsic_params_unknown_label_counterexample:
  "cams example_ext ''L'' = None \<and>
   snd (snd (cb_extrinsic_params example_load example_subscriber example_ext ''L''))
     = [(''INFO'', ''Extrinsic parameters for CAML updated'')]"
  by (simp add: cb_extrinsic_params_def cb_extrinsic_try_def example_ext_def printlog_def)

text \<open>
  Claim C4, amended: for every calibration-update event whose camera label is not a key
  of the extrinsic camera store, the event is ignored: whatever \<open>load\<close> is, it is not
  called, the extrinsic object is unchanged, the handler returns nothing, and it logs
  no warning (its one log entry is informational).
\<close>

theorem cb_extrinsic_params_unknown_label:
  "cams ext lbl = None \<Longrightarrow>
   cb_extrinsic_params ext_load self ext lbl =
     (None, ext, [(''INFO'', ''Extrinsic parameters for CAM'' @ lbl @ '' updated'')])"
  by (simp add: cb_extrinsic_params_def cb_extrinsic_try_def printlog_def)

theorem cb_extrinsic_params_unknown_label_witness:
  "cams example_ext ''L'' = None \<and>
   cb_extrinsic_params example_load example_subscriber example_ext ''L'' =
     (None, example_ext, [(''INFO'', ''Extrinsic parameters for CAML updated'')])"
proof -
  have h: "cams example_ext ''L'' = None" by (simp add: example_ext_def)
  show ?thesis
    using h cb_extrinsic_params_unknown_label [OF h, of example_load example_subscriber] by simp
qed

section \<open>Properties of WaypointSuscriber.cb\_screen\_point\<close>

text \<open>
  Claim C2, as stated: a click delivered while the camera has no calibration reports an
  error and the stored click point remains absent. It is false for the click
  (0.5, 0.5) on the fresh overlay: the normalized coordinates are stored.
\<close>

theorem cb_screen_point_uncalibrated_counterexample:
  "cams example_ext (cam_label example_overlay) = Some None \<and>
   x_norm example_overlay = None \<and> y_norm example_overlay = None \<and>
   x_norm (fst (cb_screen_point example_lib example_overlay example_ext (1 / 2) (1 / 2))) = Some (1 / 2) \<and>
   y_norm (fst (cb_screen_point example_lib example_overlay example_ext (1 / 2) (1 / 2))) = Some (1 / 2)"
  by (simp add: cb_screen_point_def example_overlay_def WaypointSuscriber_init_def example_ext_def)

text \<open>
  Claim C2, amended: for every click delivered while the camera's entry in the store is
  \<open>None\<close>, the handler logs the error that the camera is not calibrated, stores the
  normalized click coordinates \<open>x_norm\<close>, \<open>y_norm\<close>, and changes nothing else: the
  pixel coordinates \<open>x_img\<close>, \<open>y_img\<close> stay as they were.
\<close>

theorem cb_screen_point_uncalibrated:
  "cams ext (cam_label self) = Some None \<Longrightarrow>
   cb_screen_point lib self ext x y =
     (self\<lparr> x_norm := Some x, y_norm := Some y \<rparr>,
      [(''ERROR'', ''error procesing waypoint camera '' @ cam_label self @ '' no calibrated'')])"
  by (simp add: cb_screen_point_def printlog_def)

theorem cb_screen_point_uncalibrated_witness:
  "cams example_ext (cam_label example_overlay) = Some None \<and>
   cb_screen_point example_lib example_overlay example_ext (1 / 2) (1 / 2) =
     (example_overlay\<lparr> x_norm := Some (1 / 2), y_norm := Some (1 / 2) \<rparr>,
      [(''ERROR'', ''error procesing waypoint camera C no calibrated'')]) \<and>
   x_img (fst (cb_screen_point example_lib example_overlay example_ext (1 / 2) (1 / 2))) = None"
proof -
  have h: "cams example_ext (cam_label example_overlay) = Some None"
    by (simp add: example_overlay_def WaypointSuscriber_init_def example_ext_def)
  have l: "cam_label example_overlay = ''C''"
    by (simp add: example_overlay_def WaypointSuscriber_init_def)
  have x: "x_img example_overlay = None"
    by (simp add: example_overlay_def WaypointSuscriber_init_def)
  show ?thesis
    using h l x cb_screen_point_uncalibrated [OF h, of example_lib "1 / 2" "1 / 2"] by simp
qed

text \<open>A key that is missing altogether is caught and logged in the same way.\<close>

lemma cb_screen_point_missing_key:
  "cams ext (cam_label self) = None \<Longrightarrow>
   cb_screen_point lib self ext x y =
     (self\<lparr> x_norm := Some x, y_norm := Some y \<rparr>,
      [(''ERROR'', ''error procesing waypoint '' @ quote (cam_label self))])"
  by (simp add: cb_screen_point_def printlog_def)

section \<open>Properties of the curve coefficients\<close>

text \<open>
  Claim C7: when the curvature is exactly 0, the leading coefficients \<open>AL\<close> and \<open>AR\<close>
  computed by \<open>draw\<close> are both exactly 0.
\<close>

theorem draw_coeffs_zero_curvature:
  "AL (draw_coeffs (self\<lparr> curvature := 0 \<rparr>) c) = 0 \<and>
   AR (draw_coeffs (self\<lparr> curvature := 0 \<rparr>) c) = 0"
  by (simp add: draw_coeffs_def)

text \<open>
  Claim C6, as stated, ends: between a curvature above 0 and one below 0, \<open>AR\<close> differs
  by more than twice the offset magnitude. It is false for the curvatures 0.001 and
  -0.001 with the default offset 0.003: the two values differ by 0.00002.
\<close>

theorem draw_coeffs_AR_counterexample:
  "(0 :: real) < 1 / 1000 \<and> - (1 / 1000) < (0 :: real) \<and>
   \<not> (2 * \<bar>CURV_OFFSET example_overlay\<bar> <
        \<bar>AR (draw_coeffs (example_overlay\<lparr> curvature := 1 / 1000 \<rparr>) example_cam) -
         AR (draw_coeffs (example_overlay\<lparr> curvature := - (1 / 1000) \<rparr>) example_cam)\<bar>)"
  by (simp add: example_overlay_def draw_coeffs_def WaypointSuscriber_init_def default_env_def)

text \<open>
  Claim C6, amended: \<open>AL\<close> is 0.01 times the curvature; \<open>AR\<close> is (0.01 + offset) times
  the curvature when the curvature is positive and (0.01 - offset) times it otherwise;
  between a curvature \<open>c1 > 0\<close> and a curvature \<open>c2 < 0\<close> the values of \<open>AR\<close> differ
  by (0.01 + offset) c1 - (0.01 - offset) c2, which is more than twice the offset
  magnitude whenever that magnitude is below 0.01 and \<open>c1 \<ge> 1\<close>, \<open>c2 \<le> -1\<close>.
\<close>

theorem draw_coeffs_asymmetric:
  "AL (draw_coeffs self c) = (1 / 100) * curvature self \<and>
   AR (draw_coeffs self c) =
     (if curvature self > 0 then (1 / 100 + CURV_OFFSET self) * curvature self
      else (1 / 100 - CURV_OFFSET self) * curvature self) \<and>
   (\<forall>c1 c2. c1 > 0 \<and> c2 < 0 \<longrightarrow>
      AR (draw_coeffs (self\<lparr> curvature := c1 \<rparr>) c) - AR (draw_coeffs (self\<lparr> curvature := c2 \<rparr>) c)
        = (1 / 100 + CURV_OFFSET self) * c1 - (1 / 100 - CURV_OFFSET self) * c2) \<and>
   (\<forall>c1 c2. c1 \<ge> 1 \<and> c2 \<le> - 1 \<and> \<bar>CURV_OFFSET self\<bar> < 1 / 100 \<longrightarrow>
      AR (draw_coeffs (self\<lparr> curvature := c1 \<rparr>) c) - AR (draw_coeffs (self\<lparr> curvature := c2 \<rparr>) c)
        > 2 * \<bar>CURV_OFFSET self\<bar>)"
proof -
  have d: "(1 / 100 + k) * c1 - (1 / 100 - k) * c2 > 2 * \<bar>k\<bar>"
    if "c1 \<ge> 1" "c2 \<le> - 1" "\<bar>k\<bar> < 1 / 100" for k c1 c2 :: real
  proof -
    have p1: "0 < 1 / 100 + k" and p2: "0 < 1 / 100 - k" using that(3) by auto
    have "(1 / 100 + k) * 1 \<le> (1 / 100 + k) * c1"
      using p1 that(1) by (intro mult_left_mono) auto
    moreover have "(1 / 100 - k) * c2 \<le> (1 / 100 - k) * (- 1)"
      using p2 that(2) by (intro mult_left_mono) auto
    ultimately have "(1 / 100 + k) * c1 - (1 / 100 - k) * c2 \<ge> 2 / 100" by simp
    then show ?thesis using that(3) by simp
  qed
  show ?thesis
    using d by (simp add: draw_coeffs_def)
qed

theorem draw_coeffs_asymmetric_witness:
  "(1 :: real) \<ge> 1 \<and> - 1 \<le> (- 1 :: real) \<and> \<bar>CURV_OFFSET example_overlay\<bar> < 1 / 100 \<and>
   AR (draw_coeffs (example_overlay\<lparr> curvature := 1 \<rparr>) example_cam) = 13 / 1000 \<and>
   AR (draw_coeffs (example_overlay\<lparr> curvature := - 1 \<rparr>) example_cam) = - (7 / 1000) \<and>
   AR (draw_coeffs (example_overlay\<lparr> curvature := 1 \<rparr>) example_cam) -
     AR (draw_coeffs (example_overlay\<lparr> curvature := - 1 \<rparr>) example_cam)
       > 2 * \<bar>CURV_OFFSET example_overlay\<bar>"
proof -
  have k: "CURV_OFFSET example_overlay = 3 / 1000"
    by (simp add: example_overlay_def WaypointSuscriber_init_def default_env_def)
  have a: "AR (draw_coeffs (example_overlay\<lparr> curvature := 1 \<rparr>) example_cam) = 13 / 1000"
    using draw_coeffs_asymmetric [of "example_overlay\<lparr> curvature := 1 \<rparr>" example_cam] k by simp
  have b: "AR (draw_coeffs (example_overlay\<lparr> curvature := - 1 \<rparr>) example_cam) = - (7 / 1000)"
    using draw_coeffs_asymmetric [of "example_overlay\<lparr> curvature := - 1 \<rparr>" example_cam] k by simp
  show ?thesis using a b k by simp
qed

section \<open>Properties of the curve sampling\<close>

lemma side_step_True [simp]: "side_step lib self ext c sd i (True, acc) = (True, acc)"
  by (simp add: side_step_def)

lemma side_step_False [simp]:
  "side_step lib self ext c sd i (False, acc) =
     (if 0 \<le> in_cnt lib self c (side_point lib self ext c sd i)
      then (False, acc @ [side_point lib self ext c sd i]) else (True, acc))"
  by (simp add: side_step_def)

text \<open>Once a side is out, the rest of the loop leaves its list alone.\<close>

lemma side_step_out:
  "foldl (\<lambda>st i. side_step lib self ext c sd i st) (True, acc) idxs = (True, acc)"
  by (induction idxs) auto

lemma side_step_takeWhile:
  "snd (foldl (\<lambda>st i. side_step lib self ext c sd i st) (False, acc) idxs) =
     acc @ map (side_point lib self ext c sd)
            (takeWhile (\<lambda>i. 0 \<le> in_cnt lib self c (side_point lib self ext c sd i)) idxs)"
  by (induction idxs arbitrary: acc) (auto simp: side_step_out)

text \<open>The loop runs each side's step over the same indices, independently.\<close>

lemma sample_loop_fold:
  "sample_loop lib self ext c lo idx_y inc l r =
     (snd (foldl (\<lambda>st i. side_step lib self ext c Left i st) l (sample_idx lo idx_y inc)),
      snd (foldl (\<lambda>st i. side_step lib self ext c Right i st) r (sample_idx lo idx_y inc)))"
proof (induction lib self ext c lo idx_y inc l r rule: sample_loop.induct)
  case (1 lib self ext c lo idx_y increment l r)
  show ?case
  proof (cases "idx_y > lo")
    case True
    then show ?thesis
      using 1 by (subst sample_loop.simps, subst (1 2) sample_idx.simps) simp
  next
    case False
    then show ?thesis
      by (subst sample_loop.simps, subst (1 2) sample_idx.simps) simp
  qed
qed

text \<open>
  Claim C5: in the curve sampling of \<open>draw\<close>, each side retains the projected points
  of exactly the samples before the first one whose signed distance is negative: the
  longest prefix of the sampled index sequence on which the containment test is
  non-negative, each side with its own test. The two sides may end at different
  indices: in the example the left side keeps two points and the right side four.
\<close>

theorem draw_sample_prefix:
  "draw_sample lib (self\<lparr> y_limit := Some yl \<rparr>) ext c =
     Inr (map (side_point lib self ext c Left)
            (takeWhile (\<lambda>i. 0 \<le> in_cnt lib self c (side_point lib self ext c Left i))
               (sample_idx (- snd (view_coord c) + yl)
                  (- (snd (view_coord c) - snd (unwarped_size c))) 1)),
          map (side_point lib self ext c Right)
            (takeWhile (\<lambda>i. 0 \<le> in_cnt lib self c (side_point lib self ext c Right i))
               (sample_idx (- snd (view_coord c) + yl)
                  (- (snd (view_coord c) - snd (unwarped_size c))) 1))) \<and>
   draw_sample example_lib example_curve example_ext example_cam =
     Inr ([(28, 360), (671 / 50, 359)],
          [(612 / 5, 360), (56097 / 500, 359), (45513 / 500, 357), (7173 / 125, 354)])"
proof -
  have p: "side_point lib (self\<lparr> y_limit := Some yl \<rparr>) ext c sd = side_point lib self ext c sd" for sd
    by (rule ext) (simp add: side_point_def curve_x_def split: side.splits)
  have q: "in_cnt lib (self\<lparr> y_limit := Some yl \<rparr>) c = in_cnt lib self c"
    by (rule ext) (simp add: in_cnt_def)
  have g: "draw_sample lib (self\<lparr> y_limit := Some yl \<rparr>) ext c =
     Inr (map (side_point lib self ext c Left)
            (takeWhile (\<lambda>i. 0 \<le> in_cnt lib self c (side_point lib self ext c Left i))
               (sample_idx (- snd (view_coord c) + yl)
                  (- (snd (view_coord c) - snd (unwarped_size c))) 1)),
          map (side_point lib self ext c Right)
            (takeWhile (\<lambda>i. 0 \<le> in_cnt lib self c (side_point lib self ext c Right i))
               (sample_idx (- snd (view_coord c) + yl)
                  (- (snd (view_coord c) - snd (unwarped_size c))) 1)))"
    by (simp add: draw_sample_def sample_loop_fold side_step_takeWhile p q)
  have e: "draw_sample example_lib example_curve example_ext example_cam =
     Inr ([(28, 360), (671 / 50, 359)],
          [(612 / 5, 360), (56097 / 500, 359), (45513 / 500, 357), (7173 / 125, 354)])"
    by (simp add: draw_sample_def example_curve_def example_overlay_def WaypointSuscriber_init_def
        default_env_def draw_coeffs_def ct_dist_def example_cam_def example_lib_def
        sample_loop.simps side_step_def side_point_def in_cnt_def curve_x_def example_ext_def)
  show ?thesis using g e by (rule conjI)
qed

text \<open>The sample indices of the example: 4 samples, of which the left side keeps the
  first two.\<close>

lemma example_sample_idx:
  "sample_idx (- snd (view_coord example_cam) + 350)
     (- (snd (view_coord example_cam) - snd (unwarped_size example_cam))) 1 = [- 40, - 41, - 43, - 46]"
  by (simp add: sample_idx.simps example_cam_def)

section \<open>Properties of the segment rendering\<close>

lemma crossed_cases:
  "crossed d = (if d \<le> 1 then 0 else if d \<le> 3 / 2 then 1 else if d \<le> 3 then 2
                else if d \<le> 5 then 3 else 4)"
  by (simp add: crossed_def DISTAN_M_def)

lemma crossed_max: "crossed (max a b) = max (crossed a) (crossed b)"
  by (simp add: crossed_cases max_def)

text \<open>
  The inner loop for a distance that does not exceed the last threshold: it ends
  without an exception, with the color index at the number of thresholds crossed (or
  where it was, if that was larger) and the thickness index at 4 minus the color
  index, having drawn ticks only.
\<close>

lemma color_while_result:
  assumes "color_idx st \<le> 3" and "pm \<le> 5" and "thickness_idx st = 4 - int (color_idx st)"
  shows "\<exists>st' ticks. color_while self sd pm p st = (None, st') \<and>
           color_idx st' = max (color_idx st) (crossed pm) \<and> color_idx st' \<le> 3 \<and>
           thickness_idx st' = 4 - int (color_idx st') \<and>
           drawn st' = drawn st @ ticks \<and> ticks_ok self ticks"
  using assms
proof (induction self sd pm p st rule: color_while.induct)
  case (1 self sd pm p st)
  let ?ci = "color_idx st"
  have d: "py_nth ''_DISTAN_M'' DISTAN_M ?ci = Inr (DISTAN_M ! ?ci)"
    using 1(2) by (simp add: py_nth_def DISTAN_M_def)
  show ?case
  proof (cases "pm > DISTAN_M ! ?ci")
    case False
    have "crossed pm \<le> ?ci"
      using False 1(2) by (auto simp: crossed_cases DISTAN_M_def nth_Cons' split: if_splits)
    then show ?thesis
      using False d 1(2,4) by (subst color_while.simps) (simp add: ticks_ok_def max_def)
  next
    case True
    have lt: "?ci < 3"
      using True 1(2,3) by (cases "?ci = 3") (auto simp: DISTAN_M_def)
    have cr: "Suc ?ci \<le> crossed pm"
      using True lt by (auto simp: crossed_cases DISTAN_M_def nth_Cons' split: if_splits)
    define st1 where "st1 = st\<lparr> color_idx := color_idx st + 1 \<rparr>"
    define st2 where "st2 = st1\<lparr> thickness_idx :=
                              thickness_idx st1 -
                                (if thickness_idx st1 > 0 then 1 else thickness_idx st1) \<rparr>"
    define col where "col = COLORS ! color_idx st2"
    define st3 where "st3 = st2\<lparr> drawn := drawn st2 @
                              [Line Tick p (tick_end self sd p) col
                                 (HOZ_THICK self + thickness_idx st2)] \<rparr>"
    have c2: "color_idx st2 = Suc ?ci" by (simp add: st2_def st1_def)
    have t2: "thickness_idx st2 = 4 - int (Suc ?ci)"
      using 1(4) lt by (simp add: st2_def st1_def)
    have pc: "py_nth ''_COLORS'' COLORS (color_idx st2) = Inr col"
      using lt c2 by (simp add: py_nth_def COLORS_def col_def)
    have "\<exists>st' ticks. color_while self sd pm p st3 = (None, st') \<and>
           color_idx st' = max (color_idx st3) (crossed pm) \<and> color_idx st' \<le> 3 \<and>
           thickness_idx st' = 4 - int (color_idx st') \<and>
           drawn st' = drawn st3 @ ticks \<and> ticks_ok self ticks"
      using 1(1) [OF d True st1_def st2_def pc] lt c2 t2 1(3)
      unfolding st3_def by simp
    then obtain st' ticks where r: "color_while self sd pm p st3 = (None, st')"
      "color_idx st' = max (color_idx st3) (crossed pm)" "color_idx st' \<le> 3"
      "thickness_idx st' = 4 - int (color_idx st')"
      "drawn st' = drawn st3 @ ticks" "ticks_ok self ticks"
      by blast
    have e: "color_while self sd pm p st = color_while self sd pm p st3"
      using d True pc
      by (subst color_while.simps) (simp add: st1_def st2_def st3_def Let_def)
    have m: "max (color_idx st3) (crossed pm) = max ?ci (crossed pm)"
      using cr c2 by (simp add: st3_def)
    have dr: "drawn st' = drawn st @ (Line Tick p (tick_end self sd p) col
                                 (HOZ_THICK self + thickness_idx st2) # ticks)"
      using r(5) by (simp add: st3_def st2_def st1_def)
    have ok: "ticks_ok self (Line Tick p (tick_end self sd p) col
                                 (HOZ_THICK self + thickness_idx st2) # ticks)"
      using r(6) t2 lt by (simp add: ticks_ok_def)
    show ?thesis
      using e r(1,3,4) m r(2) dr ok by auto
  qed
qed

lemma upt_shift: "[a ..< a + Suc k] = a # [Suc a ..< Suc a + k]"
proof -
  have "[a ..< a + Suc k] = a # [Suc a ..< a + Suc k]" by (rule upt_conv_Cons) simp
  then show ?thesis by simp
qed

lemma kind_seg_line [simp]: "kind_of (seg_line self pts j) = Segment"
  by (simp add: seg_line_def)

lemma segments_append [simp]: "segments (xs @ ys) = segments xs @ segments ys"
  by (simp add: segments_def)

lemma segments_ticks: "ticks_ok self ticks \<Longrightarrow> segments ticks = []"
  by (induction ticks) (auto simp: ticks_ok_def segments_def)

lemma proj_m_at_distances:
  "a < length (distances self) \<Longrightarrow> proj_m_at self a = Inr (distances self ! a)"
  by (auto simp: proj_m_at_def distances_def py_nth_def split: option.splits)

lemma proj_m_at_outside:
  "\<not> a < length (distances self) \<Longrightarrow>
   proj_m_at self a = Inl (IndexError ''_proj_m'') \<or>
   proj_m_at self a = Inl (TypeError ''NoneType object is not subscriptable'')"
  by (auto simp: proj_m_at_def distances_def py_nth_def split: option.splits)

text \<open>
  The outer loop from index \<open>a\<close>, entered with the color index at the number of
  thresholds crossed so far: it draws the segments of the indices up to the first one
  whose distance exceeds 5 (or that has no distance), each styled by the thresholds
  crossed up to it.
\<close>

lemma draw_loop_result:
  assumes "color_idx st = crossed (reach (distances self) a)"
    and "color_idx st \<le> 3"
    and "thickness_idx st = 4 - int (color_idx st)"
  shows "\<exists>r st'. draw_loop self sd pts [a ..< n] st = (r, st') \<and> r \<in> proj_m_errors \<and>
           color_idx st' \<le> 3 \<and> thickness_idx st' = 4 - int (color_idx st') \<and>
           color_idx st' = crossed (reach (distances self)
             (a + length (takeWhile (\<lambda>d. d \<le> 5) (take (n - a) (drop a (distances self)))))) \<and>
           segments (drawn st') = segments (drawn st) @
             map (seg_line self pts)
               [a ..< a + length (takeWhile (\<lambda>d. d \<le> 5) (take (n - a) (drop a (distances self))))]"
  using assms
proof (induction "n - a" arbitrary: a st)
  case 0
  then show ?case by (simp add: proj_m_errors_def)
next
  case (Suc m)
  let ?pm = "distances self"
  have an: "a < n" using Suc(2) by simp
  have up: "[a ..< n] = a # [Suc a ..< n]" using an by (simp add: upt_conv_Cons)
  show ?case
  proof (cases "a < length ?pm")
    case False
    then have "drop a ?pm = []" by simp
    then show ?thesis
      using proj_m_at_outside [OF False] Suc(3,4,5) up by (auto simp: proj_m_errors_def)
  next
    case True
    have pa: "proj_m_at self a = Inr (?pm ! a)" using True by (rule proj_m_at_distances)
    have dr: "take (n - a) (drop a ?pm) = ?pm ! a # take (n - Suc a) (drop (Suc a) ?pm)"
    proof -
      have na: "n - a = Suc (n - Suc a)" using an by simp
      have "drop a ?pm = ?pm ! a # drop (Suc a) ?pm" using True by (simp add: Cons_nth_drop_Suc)
      then show ?thesis by (simp add: na)
    qed
    show ?thesis
    proof (cases "?pm ! a \<le> 5")
      case False
      then show ?thesis
        using pa Suc(3,4,5) up dr by (simp add: DISTAN_M_def proj_m_errors_def)
    next
      case le: True
      obtain st1 ticks where w: "color_while self sd (?pm ! a) (pts ! a) st = (None, st1)"
        "color_idx st1 = max (color_idx st) (crossed (?pm ! a))" "color_idx st1 \<le> 3"
        "thickness_idx st1 = 4 - int (color_idx st1)"
        "drawn st1 = drawn st @ ticks" "ticks_ok self ticks"
        using color_while_result [OF Suc(4) le Suc(5), of self sd "pts ! a"] by blast
      have band: "color_idx st1 = crossed (reach ?pm (Suc a))"
        using w(2) Suc(3) True
        by (simp add: reach_def take_Suc_conv_app_nth crossed_max)
      define st2 where "st2 = st1\<lparr> drawn := drawn st1 @
                                 [Line Segment (pts ! a) (pts ! (a + 1)) (COLORS ! color_idx st1)
                                    (VER_THICK self + thickness_idx st1)] \<rparr>"
      have pc: "py_nth ''_COLORS'' COLORS (color_idx st1) = Inr (COLORS ! color_idx st1)"
        using w(3) by (simp add: py_nth_def COLORS_def)
      have step: "draw_loop self sd pts [a ..< n] st = draw_loop self sd pts [Suc a ..< n] st2"
        using pa le w(1) pc up by (simp add: DISTAN_M_def st2_def)
      have sl: "Line Segment (pts ! a) (pts ! (a + 1)) (COLORS ! color_idx st1)
                  (VER_THICK self + thickness_idx st1) = seg_line self pts a"
        using band w(4) by (simp add: seg_line_def)
      have sg: "segments (drawn st2) = segments (drawn st) @ [seg_line self pts a]"
        using w(5) segments_ticks [OF w(6)] sl by (simp add: st2_def segments_def)
      have m: "m = n - Suc a" using Suc(2) by simp
      have i1: "color_idx st2 = crossed (reach ?pm (Suc a))"
        using band by (simp add: st2_def)
      have i2: "color_idx st2 \<le> 3" using w(3) by (simp add: st2_def)
      have i3: "thickness_idx st2 = 4 - int (color_idx st2)" using w(4) by (simp add: st2_def)
      obtain r st' where ih: "draw_loop self sd pts [Suc a ..< n] st2 = (r, st')"
        "r \<in> proj_m_errors" "color_idx st' \<le> 3" "thickness_idx st' = 4 - int (color_idx st')"
        "color_idx st' = crossed (reach ?pm
             (Suc a + length (takeWhile (\<lambda>d. d \<le> 5) (take (n - Suc a) (drop (Suc a) ?pm)))))"
        "segments (drawn st') = segments (drawn st2) @
             map (seg_line self pts)
               [Suc a ..< Suc a + length (takeWhile (\<lambda>d. d \<le> 5) (take (n - Suc a) (drop (Suc a) ?pm)))]"
        using Suc(1) [OF m i1 i2 i3] by blast
      have "segments (drawn st') = segments (drawn st) @
             map (seg_line self pts)
               [a ..< a + length (takeWhile (\<lambda>d. d \<le> 5) (take (n - a) (drop a ?pm)))]"
        using ih(6) sg dr le upt_shift [of a] by (simp del: upt_Suc)
      moreover have "color_idx st' = crossed (reach ?pm
             (a + length (takeWhile (\<lambda>d. d \<le> 5) (take (n - a) (drop a ?pm)))))"
        using ih(5) dr le by simp
      ultimately show ?thesis
        using step ih(1-4) by simp
    qed
  qed
qed

lemma draw_side_result:
  "\<exists>r st'. draw_side self sd pts = (r, st') \<and> r \<in> proj_m_errors \<and>
     color_idx st' \<le> 3 \<and> thickness_idx st' = 4 - int (color_idx st') \<and>
     color_idx st' = crossed (reach (distances self) (n_drawn pts (distances self))) \<and>
     segments (drawn st') = map (seg_line self pts) [0 ..< n_drawn pts (distances self)]"
  using draw_loop_result [where st = "\<lparr> color_idx = 0, thickness_idx = int (length COLORS), drawn = [] \<rparr>"
        and a = 0 and self = self and sd = sd and pts = pts and n = "length pts - 1"]
  by (auto simp: crossed_cases COLORS_def draw_side_def n_drawn_def segments_def reach_def)

text \<open>The rendering of the left edge of the example: the color steps through the
  palette and the thickness index from 4 down to 1 as the distances pass 1, 1.5 and 3;
  the fifth distance, 6, exceeds 5 and ends the drawing.\<close>

lemma example_render:
  "draw_side example_far Left example_pts =
     (None, \<lparr> color_idx = 3, thickness_idx = 1, drawn =
        [Line Segment (100, 350) (100, 340) (0, 0, 255) 6,
         Line Tick (100, 340) (110, 340) (32, 165, 218) 5,
         Line Segment (100, 340) (100, 320) (32, 165, 218) 5,
         Line Tick (100, 320) (110, 320) (0, 255, 255) 4,
         Line Segment (100, 320) (100, 290) (0, 255, 255) 4,
         Line Tick (100, 290) (110, 290) (0, 255, 0) 3,
         Line Segment (100, 290) (100, 250) (0, 255, 0) 3] \<rparr>)"
  by (simp add: draw_side_def example_far_def example_pts_def example_overlay_def
      WaypointSuscriber_init_def default_env_def proj_m_at_def py_nth_def
      color_while.simps DISTAN_M_def COLORS_def tick_end_def upt_rec)

text \<open>
  Claim C8, as stated: once the distance of a segment index exceeds the last threshold
  (5.0) no further segment is drawn, and each crossing of one of the four thresholds
  (1.0, 1.5, 3.0, 5.0) advances the color index and steps the thickness index down.
  The second part is false for the last threshold: in the example the distance goes
  from 4 at index 3 to 6 at index 4, across 5.0, and the loop ends with the color index
  still 3 and the thickness index still 1, as they were after index 3.
\<close>

theorem draw_side_last_threshold_counterexample:
  "distances example_far ! 3 = 4 \<and> distances example_far ! 4 = 6 \<and> DISTAN_M ! 3 = 5 \<and>
   length example_pts - 1 = 6 \<and>
   color_idx (snd (draw_loop example_far Left example_pts [0 ..< 4]
     \<lparr> color_idx = 0, thickness_idx = int (length COLORS), drawn = [] \<rparr>)) = 3 \<and>
   thickness_idx (snd (draw_loop example_far Left example_pts [0 ..< 4]
     \<lparr> color_idx = 0, thickness_idx = int (length COLORS), drawn = [] \<rparr>)) = 1 \<and>
   color_idx (snd (draw_side example_far Left example_pts)) = 3 \<and>
   thickness_idx (snd (draw_side example_far Left example_pts)) = 1"
  by (simp add: example_render)
     (simp add: example_far_def example_pts_def example_overlay_def distances_def
        WaypointSuscriber_init_def default_env_def proj_m_at_def py_nth_def
        color_while.simps DISTAN_M_def COLORS_def tick_end_def upt_rec)

text \<open>
  Claim C8, amended: once the distance of a segment index exceeds the last threshold
  (5.0) no further segment is drawn for that side; each crossing of one of the first
  three thresholds (1.0, 1.5, 3.0) advances the color index and steps the thickness
  index down, and crossing the last threshold ends the loop and advances neither. So
  the segments drawn are those of the indices before the first one whose distance
  exceeds 5, and the segment of index \<open>j\<close> is drawn in the color \<open>COLORS[b]\<close> with
  thickness index \<open>4 - b\<close>, where \<open>b\<close> is the number of thresholds that the
  distances up to \<open>j\<close> have crossed; at the end the color index is the number of
  thresholds crossed by the distances of the segments drawn, at most 3, and the
  thickness index is 4 minus the color index.
\<close>

theorem draw_side_bands:
  "segments (drawn (snd (draw_side self sd pts))) =
     map (seg_line self pts) [0 ..< n_drawn pts (distances self)] \<and>
   color_idx (snd (draw_side self sd pts)) =
     crossed (reach (distances self) (n_drawn pts (distances self))) \<and>
   color_idx (snd (draw_side self sd pts)) \<le> 3 \<and>
   thickness_idx (snd (draw_side self sd pts)) = 4 - int (color_idx (snd (draw_side self sd pts)))"
  using draw_side_result [of self sd pts] by auto

text \<open>The same bounds after any number \<open>n\<close> of rounds of the outer loop.\<close>

lemma draw_loop_prefix_result:
  "\<exists>r st'. draw_loop self sd pts [0 ..< n]
       \<lparr> color_idx = 0, thickness_idx = int (length COLORS), drawn = [] \<rparr> = (r, st') \<and>
     r \<in> proj_m_errors \<and> color_idx st' \<le> 3"
  using draw_loop_result [where st = "\<lparr> color_idx = 0, thickness_idx = int (length COLORS), drawn = [] \<rparr>"
        and a = 0 and self = self and sd = sd and pts = pts and n = n]
  by (auto simp: crossed_cases COLORS_def reach_def)

text \<open>
  Claim C9: throughout the segment rendering of either side the color index stays
  below the length of the palette and of the threshold table: after any number of
  rounds of the loop, and at its end, the color index is below both lengths and no
  read of \<open>_COLORS\<close> or \<open>_DISTAN_M\<close> was out of range (such a read is an
  IndexError of the model, and none is raised).
\<close>

theorem draw_side_in_bounds:
  "fst (draw_side self sd pts) \<noteq> Some (IndexError ''_COLORS'') \<and>
   fst (draw_side self sd pts) \<noteq> Some (IndexError ''_DISTAN_M'') \<and>
   color_idx (snd (draw_side self sd pts)) < length COLORS \<and>
   color_idx (snd (draw_side self sd pts)) < length DISTAN_M \<and>
   fst (draw_loop self sd pts [0 ..< n]
          \<lparr> color_idx = 0, thickness_idx = int (length COLORS), drawn = [] \<rparr>)
     \<noteq> Some (IndexError ''_COLORS'') \<and>
   fst (draw_loop self sd pts [0 ..< n]
          \<lparr> color_idx = 0, thickness_idx = int (length COLORS), drawn = [] \<rparr>)
     \<noteq> Some (IndexError ''_DISTAN_M'') \<and>
   color_idx (snd (draw_loop self sd pts [0 ..< n]
          \<lparr> color_idx = 0, thickness_idx = int (length COLORS), drawn = [] \<rparr>)) < length COLORS \<and>
   color_idx (snd (draw_loop self sd pts [0 ..< n]
          \<lparr> color_idx = 0, thickness_idx = int (length COLORS), drawn = [] \<rparr>)) < length DISTAN_M"
  using draw_side_result [of self sd pts] draw_loop_prefix_result [of self sd pts n]
  by (auto simp: proj_m_errors_def COLORS_def DISTAN_M_def)

text \<open>The thickness invariant through the inner loop, whatever its outcome.\<close>

lemma color_while_thick:
  "thick_ok self st \<Longrightarrow> thick_ok self (snd (color_while self sd pm p st))"
proof (induction self sd pm p st rule: color_while.induct)
  case (1 self sd pm p st)
  show ?case
  proof (cases "py_nth ''_DISTAN_M'' DISTAN_M (color_idx st)")
    case (Inl e)
    then show ?thesis using 1(2) by (subst color_while.simps) simp
  next
    case (Inr d)
    show ?thesis
    proof (cases "pm > d")
      case False
      then show ?thesis using Inr 1(2) by (subst color_while.simps) simp
    next
      case True
      define st1 where "st1 = st\<lparr> color_idx := color_idx st + 1 \<rparr>"
      define st2 where "st2 = st1\<lparr> thickness_idx :=
                              thickness_idx st1 -
                                (if thickness_idx st1 > 0 then 1 else thickness_idx st1) \<rparr>"
      have t2: "thick_ok self st2"
        using 1(2) by (auto simp: thick_ok_def st2_def st1_def)
      show ?thesis
      proof (cases "py_nth ''_COLORS'' COLORS (color_idx st2)")
        case (Inl e)
        then show ?thesis
          using Inr True t2
          by (subst color_while.simps) (simp add: st1_def st2_def Let_def cong: if_cong)
      next
        case col: (Inr col)
        define st3 where "st3 = st2\<lparr> drawn := drawn st2 @
                              [Line Tick p (tick_end self sd p) col
                                 (HOZ_THICK self + thickness_idx st2)] \<rparr>"
        have t3: "thick_ok self st3"
          using t2 by (simp add: thick_ok_def st3_def min_thick_def)
        have "thick_ok self (snd (color_while self sd pm p st3))"
          using 1(1) [OF Inr True st1_def st2_def col] t3 unfolding st3_def by simp
        moreover have "color_while self sd pm p st = color_while self sd pm p st3"
          using Inr True col
          by (subst color_while.simps) (simp add: st1_def st2_def st3_def Let_def cong: if_cong)
        ultimately show ?thesis by simp
      qed
    qed
  qed
qed

lemma draw_loop_thick:
  "thick_ok self st \<Longrightarrow> thick_ok self (snd (draw_loop self sd pts idxs st))"
proof (induction idxs arbitrary: st)
  case Nil
  then show ?case by simp
next
  case (Cons idx rest)
  show ?case
  proof (cases "proj_m_at self idx")
    case (Inl e)
    then show ?thesis using Cons(2) by simp
  next
    case (Inr pm)
    show ?thesis
    proof (cases "pm > last DISTAN_M")
      case True
      then show ?thesis using Inr Cons(2) by simp
    next
      case False
      obtain r st1 where w: "color_while self sd pm (pts ! idx) st = (r, st1)"
        by (cases "color_while self sd pm (pts ! idx) st")
      have t1: "thick_ok self st1"
        using color_while_thick [OF Cons(2), of sd pm "pts ! idx"] w by simp
      show ?thesis
      proof (cases r)
        case (Some e)
        then show ?thesis using Inr False w t1 by simp
      next
        case None
        show ?thesis
        proof (cases "py_nth ''_COLORS'' COLORS (color_idx st1)")
          case (Inl e)
          then show ?thesis using Inr False w None t1 by simp
        next
          case col: (Inr col)
          have "thick_ok self (st1\<lparr> drawn := drawn st1 @
                                 [Line Segment (pts ! idx) (pts ! (idx + 1)) col
                                    (VER_THICK self + thickness_idx st1)] \<rparr>)"
            using t1 by (simp add: thick_ok_def min_thick_def)
          then show ?thesis
            using Inr False w None col Cons(1) by simp
        qed
      qed
    qed
  qed
qed

text \<open>
  Claim C10: throughout the segment rendering the thickness index never becomes
  negative, so every line drawn is at least as thick as the configured base thickness
  of its kind (horizontal for a tick, vertical for a segment); this holds at the end
  of the rendering of a side and after any number \<open>n\<close> of rounds of its loop.
\<close>

theorem draw_side_thickness:
  "0 \<le> thickness_idx (snd (draw_side self sd pts)) \<and>
   (\<forall>cmd \<in> set (drawn (snd (draw_side self sd pts))).
      (case kind_of cmd of Tick \<Rightarrow> HOZ_THICK self | Segment \<Rightarrow> VER_THICK self)
        \<le> thickness_of cmd) \<and>
   0 \<le> thickness_idx (snd (draw_loop self sd pts [0 ..< n]
          \<lparr> color_idx = 0, thickness_idx = int (length COLORS), drawn = [] \<rparr>)) \<and>
   (\<forall>cmd \<in> set (drawn (snd (draw_loop self sd pts [0 ..< n]
          \<lparr> color_idx = 0, thickness_idx = int (length COLORS), drawn = [] \<rparr>))).
      (case kind_of cmd of Tick \<Rightarrow> HOZ_THICK self | Segment \<Rightarrow> VER_THICK self)
        \<le> thickness_of cmd)"
proof -
  have i: "thick_ok self \<lparr> color_idx = 0, thickness_idx = int (length COLORS), drawn = [] \<rparr>"
    by (simp add: thick_ok_def)
  have "thick_ok self (snd (draw_side self sd pts))"
    unfolding draw_side_def using i by (rule draw_loop_thick)
  moreover have "thick_ok self (snd (draw_loop self sd pts [0 ..< n]
          \<lparr> color_idx = 0, thickness_idx = int (length COLORS), drawn = [] \<rparr>))"
    using i by (rule draw_loop_thick)
  ultimately show ?thesis
    by (simp add: thick_ok_def min_thick_def list_all_iff)
qed

theorem draw_side_thickness_witness:
  "Line Tick (100, 290) (110, 290) (0, 255, 0) 3
     \<in> set (drawn (snd (draw_side example_far Left example_pts))) \<and>
   HOZ_THICK example_far \<le> thickness_of (Line Tick (100, 290) (110, 290) (0, 255, 0) 3) \<and>
   0 \<le> thickness_idx (snd (draw_side example_far Left example_pts))"
proof -
  have m: "Line Tick (100, 290) (110, 290) (0, 255, 0) 3
             \<in> set (drawn (snd (draw_side example_far Left example_pts)))"
    by (simp add: example_render)
  have b: "\<forall>cmd \<in> set (drawn (snd (draw_side example_far Left example_pts))).
      (case kind_of cmd of Tick \<Rightarrow> HOZ_THICK example_far | Segment \<Rightarrow> VER_THICK example_far)
        \<le> thickness_of cmd"
    and t: "0 \<le> thickness_idx (snd (draw_side example_far Left example_pts))"
    using draw_side_thickness [of example_far Left example_pts 0] by blast+
  have "(case kind_of (Line Tick (100, 290) (110, 290) (0, 255, 0) 3) of
           Tick \<Rightarrow> HOZ_THICK example_far | Segment \<Rightarrow> VER_THICK example_far)
        \<le> thickness_of (Line Tick (100, 290) (110, 290) (0, 255, 0) 3)"
    using b m by (rule bspec)
  then show ?thesis
    using m t by simp
qed

end
